theory Spec2Isabelle
  imports Main "HOL-Library.Signed_Division"
begin

section \<open>The OutbreakTracking contract (blockchain/contracts/OutbreakTracking.sol)\<close>

text \<open>
  A shallow embedding of the Solidity contract. Strings are byte lists (\<open>string\<close>),
  \<open>uint256\<close> values are naturals and \<open>int256\<close> values are integers. The contract is
  compiled with Solidity 0.8, where every arithmetic operation is checked: a result outside
  the type's range aborts the call with \<open>Panic(0x11)\<close>, a division by zero with
  \<open>Panic(0x12)\<close>, and a failed \<open>require\<close> aborts it with \<open>Error(reason)\<close>. An aborted
  call is a value \<open>Inl e\<close>; it has no state and no events, since a revert discards both.
\<close>

subsection \<open>Errors and checked arithmetic\<close>

datatype error = Error string | Panic nat

fun bindE :: "error + 'a \<Rightarrow> ('a \<Rightarrow> error + 'b) \<Rightarrow> error + 'b" where
  "bindE (Inl e) f = Inl e"
| "bindE (Inr v) f = f v"

text \<open>The result of an \<open>int256\<close> operation: the value when it fits, \<open>Panic(0x11)\<close> otherwise.\<close>

definition int256 :: "int \<Rightarrow> error + int" where
  "int256 v = (if - (2 ^ 255) \<le> v \<and> v < 2 ^ 255 then Inr v else Inl (Panic 17))"

text \<open>The same for \<open>uint256\<close>.\<close>

definition uint256 :: "nat \<Rightarrow> error + nat" where
  "uint256 n = (if n < 2 ^ 256 then Inr n else Inl (Panic 17))"

subsection \<open>Data\<close>

type_synonym address = nat

record InfectedIndividual =
  individualAddress :: address
  ind_location :: string
  testResult :: bool
  ind_timestamp :: nat

record OutbreakLocation =
  location :: string
  infectedCount :: nat
  timestamp :: nat

record Coordinate =
  latitude :: int
  longitude :: int

record contract =
  owner :: address
  outbreakRadius :: nat
  infectedIndividuals :: "InfectedIndividual list"
  outbreakLocations :: "OutbreakLocation list"

datatype event =
    NewInfection address string nat
  | PotentialOutbreak string nat nat
  | ProximityAlert address string string nat

text \<open>The transaction environment: \<open>msg.sender\<close> and \<open>block.timestamp\<close>.\<close>

record env =
  msg_sender :: address
  block_timestamp :: nat

definition constructor :: "env \<Rightarrow> nat \<Rightarrow> contract" where
  "constructor e radius =
     \<lparr>owner = msg_sender e, outbreakRadius = radius,
      infectedIndividuals = [], outbreakLocations = []\<rparr>"

subsection \<open>Parsing coordinates\<close>

text \<open>
  The loop of \<open>parseCoordinate\<close> that looks for the separator: the index of the first
  \<open>','\<close>, or \<open>0\<close> (the initial value of \<open>commaIndex\<close>) when there is none.
\<close>

fun findComma :: "string \<Rightarrow> nat \<Rightarrow> nat" where
  "findComma [] i = 0"
| "findComma (c # cs) i = (if c = CHR '','' then i else findComma cs (Suc i))"

definition substring :: "string \<Rightarrow> nat \<Rightarrow> nat \<Rightarrow> string" where
  "substring str startIndex len = take len (drop startIndex str)"

text \<open>
  The loop of \<open>parseCoordinateValue\<close> over the bytes that remain, with the loop's
  variables \<open>result\<close>, \<open>decimalMultiplier\<close> and \<open>foundDecimal\<close>. The byte minus 48 is a
  checked \<open>uint8\<close> subtraction: a byte below \<open>'0'\<close> panics, a byte above \<open>'9'\<close> fails the
  \<open>require\<close>.
\<close>

fun parseLoop :: "string \<Rightarrow> int \<Rightarrow> int \<Rightarrow> bool \<Rightarrow> error + (int \<times> bool)" where
  "parseLoop [] result decimalMultiplier foundDecimal = Inr (result, foundDecimal)"
| "parseLoop (c # cs) result decimalMultiplier foundDecimal =
     (if c = CHR ''.'' then parseLoop cs result decimalMultiplier True
      else if (of_char c :: nat) < 48 then Inl (Panic 17)
      else let digit = (of_char c :: nat) - 48 in
        if \<not> digit \<le> 9 then Inl (Error ''Invalid character in coordinate'')
        else if \<not> foundDecimal then
          bindE (int256 (result * 10)) (\<lambda>r.
          bindE (int256 (r + int digit)) (\<lambda>r'.
          parseLoop cs r' decimalMultiplier foundDecimal))
        else
          let m = decimalMultiplier sdiv 10 in
          bindE (int256 (int digit * m)) (\<lambda>t.
          bindE (int256 (result + t)) (\<lambda>r'.
          parseLoop cs r' m foundDecimal)))"

definition parseCoordinateValue :: "string \<Rightarrow> error + int" where
  "parseCoordinateValue str =
     (let isNegative = (str \<noteq> [] \<and> hd str = CHR ''-'');
          startIndex = (if isNegative then 1 else 0 :: nat) in
      bindE (parseLoop (drop startIndex str) 0 1000000 False) (\<lambda>(result, foundDecimal).
      bindE (if \<not> foundDecimal then int256 (result * 1000000) else Inr result) (\<lambda>result.
      if isNegative then int256 (- result) else Inr result)))"

definition parseCoordinate :: "string \<Rightarrow> error + Coordinate" where
  "parseCoordinate loc =
     (let commaIndex = findComma loc 0 in
      if \<not> (commaIndex > 0 \<and> commaIndex < length loc - 1)
      then Inl (Error ''Invalid coordinate format'')
      else
        let latStr = substring loc 0 commaIndex;
            lonStr = substring loc (commaIndex + 1) (length loc - commaIndex - 1) in
        bindE (parseCoordinateValue latStr) (\<lambda>lat.
        bindE (parseCoordinateValue lonStr) (\<lambda>lon.
        Inr \<lparr>latitude = lat, longitude = lon\<rparr>)))"

subsection \<open>Distance\<close>

definition abs_sol :: "int \<Rightarrow> error + int" where
  "abs_sol x = (if x \<ge> 0 then Inr x else int256 (- x))"

text \<open>
  The \<open>while\<close> loop of \<open>sqrt\<close>. It ends because \<open>w\<close> decreases at every turn.
\<close>

function sqrtLoop :: "nat \<Rightarrow> nat \<Rightarrow> nat \<Rightarrow> error + nat" where
  "sqrtLoop z y w =
     (if y < w then
        (if y = 0 then Inl (Panic 18)
         else bindE (uint256 (z div y + y)) (\<lambda>s. sqrtLoop z (s div 2) y))
      else Inr w)"
  by pat_completeness auto
termination
  by (relation "measure (\<lambda>(z, y, w). w)") auto

definition sqrt_sol :: "int \<Rightarrow> error + int" where
  "sqrt_sol x =
     (if x \<le> 0 then Inr 0
      else let z = nat x in
        bindE (uint256 (z + 1)) (\<lambda>s.
        bindE (sqrtLoop z (s div 2) z) (\<lambda>w. Inr (int w))))"

text \<open>Lines 249 to 252: a fixed-point degree value to fixed-point radians.\<close>

definition toRad :: "int \<Rightarrow> error + int" where
  "toRad deg = bindE (int256 (deg * 3141592)) (\<lambda>p. Inr (p sdiv (180 * 1000000)))"

text \<open>Line 268: the value of the local variable \<open>cosLat1\<close> for the first latitude.\<close>

definition cosLat1 :: "int \<Rightarrow> error + int" where
  "cosLat1 lat =
     bindE (abs_sol (lat sdiv 1000000)) (\<lambda>a.
     bindE (int256 (90 * 1000000 - a)) (\<lambda>d.
     bindE (int256 (d * 1000000)) (\<lambda>n.
     Inr (n sdiv (90 * 1000000)))))"

definition calculateDistance :: "string \<Rightarrow> string \<Rightarrow> error + nat" where
  "calculateDistance loc1 loc2 =
     bindE (parseCoordinate loc1) (\<lambda>coord1.
     bindE (parseCoordinate loc2) (\<lambda>coord2.
     bindE (toRad (latitude coord1)) (\<lambda>lat1Rad.
     bindE (toRad (longitude coord1)) (\<lambda>lon1Rad.
     bindE (toRad (latitude coord2)) (\<lambda>lat2Rad.
     bindE (toRad (longitude coord2)) (\<lambda>lon2Rad.
     bindE (int256 (lat2Rad - lat1Rad)) (\<lambda>dLat.
     bindE (int256 (lon2Rad - lon1Rad)) (\<lambda>dLon.
     bindE (cosLat1 (latitude coord1)) (\<lambda>cosLat.
     bindE (int256 (dLat * 6371000)) (\<lambda>xn.
     let x = xn sdiv 1000000 in
     bindE (int256 (dLon * 6371000)) (\<lambda>yn.
     bindE (int256 (yn * cosLat)) (\<lambda>yn'.
     let y = yn' sdiv (1000000 * 1000000) in
     bindE (int256 (x * x)) (\<lambda>xx.
     bindE (int256 (y * y)) (\<lambda>yy.
     bindE (int256 (xx + yy)) (\<lambda>s.
     bindE (sqrt_sol s) (\<lambda>r. Inr (nat r)))))))))))))))))"

definition isWithinRadius :: "string \<Rightarrow> string \<Rightarrow> nat \<Rightarrow> error + (bool \<times> nat)" where
  "isWithinRadius loc1 loc2 radius =
     bindE (calculateDistance loc1 loc2) (\<lambda>distance. Inr (distance \<le> radius, distance))"

subsection \<open>Operations\<close>

text \<open>
  \<open>compareLocations\<close> compares the \<open>keccak256\<close> hashes of the two strings; the hash
  is taken to be injective, so the comparison is equality of the byte strings.
\<close>

definition compareLocations :: "string \<Rightarrow> string \<Rightarrow> bool" where
  "compareLocations loc1 loc2 = (loc1 = loc2)"

text \<open>
  The first loop of \<open>reportInfection\<close> (lines 58 to 68): the entries with the first one
  that matches updated, the flag \<open>locationExists\<close>, and the event emitted.
\<close>

fun markLoop :: "nat \<Rightarrow> string \<Rightarrow> OutbreakLocation list
    \<Rightarrow> error + (OutbreakLocation list \<times> bool \<times> event list)" where
  "markLoop now loc [] = Inr ([], False, [])"
| "markLoop now loc (x # xs) =
     (if compareLocations (location x) loc then
        bindE (uint256 (infectedCount x + 1)) (\<lambda>c.
        Inr (x\<lparr>infectedCount := c, timestamp := now\<rparr> # xs, True,
             [PotentialOutbreak loc c now]))
      else
        bindE (markLoop now loc xs) (\<lambda>(xs', locationExists, evs).
        Inr (x # xs', locationExists, evs)))"

text \<open>The loop of \<open>checkAndMergeOutbreaks\<close>: the events it emits, in order.\<close>

fun mergeLoop :: "nat \<Rightarrow> nat \<Rightarrow> string \<Rightarrow> OutbreakLocation list \<Rightarrow> error + event list" where
  "mergeLoop now radius newLocation [] = Inr []"
| "mergeLoop now radius newLocation (x # xs) =
     (if compareLocations (location x) newLocation then mergeLoop now radius newLocation xs
      else
        bindE (isWithinRadius (location x) newLocation radius) (\<lambda>(inRadius, distance).
        bindE (mergeLoop now radius newLocation xs) (\<lambda>evs.
        Inr ((if inRadius then [PotentialOutbreak newLocation (infectedCount x) now] else [])
             @ evs))))"

definition checkAndMergeOutbreaks :: "env \<Rightarrow> contract \<Rightarrow> string \<Rightarrow> error + event list" where
  "checkAndMergeOutbreaks e s newLocation =
     mergeLoop (block_timestamp e) (outbreakRadius s) newLocation (outbreakLocations s)"

definition reportInfection ::
  "env \<Rightarrow> contract \<Rightarrow> address \<Rightarrow> string \<Rightarrow> bool \<Rightarrow> error + (contract \<times> event list)" where
  "reportInfection e s individual loc result =
     (if result then
        let now = block_timestamp e;
            s1 = s\<lparr>infectedIndividuals := infectedIndividuals s @
                   [\<lparr>individualAddress = individual, ind_location = loc,
                     testResult = result, ind_timestamp = now\<rparr>]\<rparr> in
        bindE (markLoop now loc (outbreakLocations s1)) (\<lambda>(xs, locationExists, evs1).
        let s2 = s1\<lparr>outbreakLocations := xs\<rparr>;
            s3 = (if \<not> locationExists
                  then s2\<lparr>outbreakLocations := outbreakLocations s2 @
                         [\<lparr>location = loc, infectedCount = 1, timestamp = now\<rparr>]\<rparr>
                  else s2);
            evs2 = (if \<not> locationExists then [NewInfection individual loc now] else []) in
        bindE (checkAndMergeOutbreaks e s3 loc) (\<lambda>evs3.
        Inr (s3, evs1 @ evs2 @ evs3)))
      else Inr (s, []))"

text \<open>
  The loop of \<open>checkProximity\<close> from index \<open>i\<close> on, with the loop's variables
  \<open>closestDistance\<close>, \<open>closestIndex\<close> and \<open>foundInRadius\<close>.
\<close>

fun proximityLoop :: "string \<Rightarrow> nat \<Rightarrow> OutbreakLocation list \<Rightarrow> nat \<Rightarrow> nat \<Rightarrow> nat \<Rightarrow> bool
    \<Rightarrow> error + (nat \<times> nat \<times> bool)" where
  "proximityLoop newLocation radius [] i closestDistance closestIndex foundInRadius =
     Inr (closestDistance, closestIndex, foundInRadius)"
| "proximityLoop newLocation radius (x # xs) i closestDistance closestIndex foundInRadius =
     (case isWithinRadius newLocation (location x) radius of
        Inl err \<Rightarrow> Inl err
      | Inr (inRadius, distance) \<Rightarrow>
          if inRadius \<and> distance < closestDistance
          then proximityLoop newLocation radius xs (Suc i) distance i True
          else proximityLoop newLocation radius xs (Suc i)
                 closestDistance closestIndex foundInRadius)"

definition checkProximity :: "contract \<Rightarrow> string \<Rightarrow> error + (bool \<times> string \<times> nat \<times> nat)" where
  "checkProximity s newLocation =
     bindE (proximityLoop newLocation (outbreakRadius s) (outbreakLocations s) 0
              (2 ^ 256 - 1) 0 False)
       (\<lambda>(closestDistance, closestIndex, foundInRadius).
     if foundInRadius then
       (if closestIndex < length (outbreakLocations s) then
          Inr (True, location (outbreakLocations s ! closestIndex),
               infectedCount (outbreakLocations s ! closestIndex), closestDistance)
        else Inl (Panic 50))
     else Inr (False, [], 0, 0))"

definition reportNewLocation :: "env \<Rightarrow> contract \<Rightarrow> string \<Rightarrow> error + (contract \<times> event list)" where
  "reportNewLocation e s loc =
     bindE (checkProximity s loc) (\<lambda>(withinRadius, outbreakLocation, count, distance).
     if withinRadius then
       Inr (s, [ProximityAlert (msg_sender e) loc outbreakLocation distance,
                PotentialOutbreak outbreakLocation count (block_timestamp e)])
     else Inr (s, []))"

definition setOutbreakRadius :: "env \<Rightarrow> contract \<Rightarrow> nat \<Rightarrow> error + (contract \<times> event list)" where
  "setOutbreakRadius e s newRadius =
     (if msg_sender e = owner s then Inr (s\<lparr>outbreakRadius := newRadius\<rparr>, [])
      else Inl (Error ''Not authorized''))"

definition getInfectedCount :: "contract \<Rightarrow> nat" where
  "getInfectedCount s = length (infectedIndividuals s)"

definition getOutbreakLocationsCount :: "contract \<Rightarrow> nat" where
  "getOutbreakLocationsCount s = length (outbreakLocations s)"

definition getAllOutbreakLocations :: "contract \<Rightarrow> string list \<times> nat list" where
  "getAllOutbreakLocations s =
     (map location (outbreakLocations s), map infectedCount (outbreakLocations s))"

text \<open>
  The loop of \<open>checkExposureRisk\<close> over the records that remain, with the running
  \<open>exposed\<close> and \<open>exposureCount\<close>.
\<close>

fun exposureLoop :: "nat \<Rightarrow> nat \<Rightarrow> string \<Rightarrow> nat \<Rightarrow> InfectedIndividual list \<Rightarrow> bool \<Rightarrow> nat
    \<Rightarrow> error + (bool \<times> nat)" where
  "exposureLoop currentTime radius userLocation timeThreshold [] exposed exposureCount =
     Inr (exposed, exposureCount)"
| "exposureLoop currentTime radius userLocation timeThreshold (r # rs) exposed exposureCount =
     (if currentTime < ind_timestamp r then Inl (Panic 17)
      else if currentTime - ind_timestamp r > timeThreshold
      then exposureLoop currentTime radius userLocation timeThreshold rs exposed exposureCount
      else
        (case isWithinRadius userLocation (ind_location r) radius of
           Inl err \<Rightarrow> Inl err
         | Inr (inRadius, distance) \<Rightarrow>
             if inRadius then
               (case uint256 (exposureCount + 1) of
                  Inl err \<Rightarrow> Inl err
                | Inr c \<Rightarrow>
                    exposureLoop currentTime radius userLocation timeThreshold rs True c)
             else exposureLoop currentTime radius userLocation timeThreshold rs exposed
                    exposureCount))"

definition checkExposureRisk :: "env \<Rightarrow> contract \<Rightarrow> string \<Rightarrow> nat \<Rightarrow> error + (bool \<times> nat)" where
  "checkExposureRisk e s userLocation timeThreshold =
     exposureLoop (block_timestamp e) (outbreakRadius s) userLocation timeThreshold
       (infectedIndividuals s) False 0"

subsection \<open>Calls and transactions\<close>

datatype call =
    ReportInfection address string bool
  | ReportNewLocation string
  | SetOutbreakRadius nat
  | CheckProximity string
  | CheckExposureRisk string nat
  | GetInfectedCount
  | GetOutbreakLocationsCount
  | GetAllOutbreakLocations

text \<open>A call's effect on the state and its events; a view leaves the state as it is.\<close>

fun exec :: "env \<Rightarrow> contract \<Rightarrow> call \<Rightarrow> error + (contract \<times> event list)" where
  "exec e s (ReportInfection individual loc result) = reportInfection e s individual loc result"
| "exec e s (ReportNewLocation loc) = reportNewLocation e s loc"
| "exec e s (SetOutbreakRadius newRadius) = setOutbreakRadius e s newRadius"
| "exec e s (CheckProximity loc) = bindE (checkProximity s loc) (\<lambda>r. Inr (s, []))"
| "exec e s (CheckExposureRisk loc timeThreshold) =
     bindE (checkExposureRisk e s loc timeThreshold) (\<lambda>r. Inr (s, []))"
| "exec e s GetInfectedCount = Inr (s, [])"
| "exec e s GetOutbreakLocationsCount = Inr (s, [])"
| "exec e s GetAllOutbreakLocations = Inr (s, [])"

text \<open>A transaction: a call that reverts leaves the state as it was and emits nothing.\<close>

definition transact :: "env \<Rightarrow> contract \<Rightarrow> call \<Rightarrow> contract \<times> event list" where
  "transact e s c = (case exec e s c of Inl err \<Rightarrow> (s, []) | Inr r \<Rightarrow> r)"

section \<open>Evaluation\<close>

text \<open>
  A bind is evaluated from its first argument: the continuation is looked at only once the
  first argument is a value.
\<close>

lemma bindE_weak_cong: "m = m' \<Longrightarrow> bindE m f = bindE m' f"
  by simp

text \<open>The equation of the square-root loop is unfolded on demand only.\<close>

declare sqrtLoop.simps [simp del]

lemmas parse_defs = parseCoordinate_def parseCoordinateValue_def substring_def
  int256_def signed_divide_int_def Let_def

lemmas dist_defs = calculateDistance_def parse_defs uint256_def toRad_def cosLat1_def
  abs_sol_def sqrt_sol_def sqrtLoop.simps isWithinRadius_def

lemmas op_defs = reportInfection_def checkAndMergeOutbreaks_def constructor_def
  compareLocations_def checkProximity_def checkExposureRisk_def

section \<open>The coordinate parser\<close>

lemma parseLoop_dots:
  "parseLoop (replicate n CHR ''.'') r m f = Inr (r, f \<or> 0 < n)"
  by (induction n arbitrary: f) auto

text \<open>
  Claim C10. A latitude or longitude substring made of \<open>'.'\<close> characters only, with or
  without a leading \<open>'-'\<close>, and so with no digit at all, parses to \<open>0\<close> without an
  error; in particular \<open>"-,."\<close> parses to the coordinate \<open>(0, 0)\<close>.
\<close>

theorem parse_without_digits_is_zero:
  "parseCoordinateValue (replicate n CHR ''.'') = Inr 0
   \<and> parseCoordinateValue (CHR ''-'' # replicate n CHR ''.'') = Inr 0
   \<and> parseCoordinate ''-,.'' = Inr \<lparr>latitude = 0, longitude = 0\<rparr>"
proof (intro conjI)
  show "parseCoordinateValue (replicate n CHR ''.'') = Inr 0"
    by (cases n) (simp_all add: parseCoordinateValue_def parseLoop_dots int256_def)
  show "parseCoordinateValue (CHR ''-'' # replicate n CHR ''.'') = Inr 0"
    by (simp add: parseCoordinateValue_def parseLoop_dots int256_def)
  show "parseCoordinate ''-,.'' = Inr \<lparr>latitude = 0, longitude = 0\<rparr>"
    by (simp add: parse_defs cong: bindE_weak_cong let_weak_cong)
qed











text \<open>
  Claim C9 at \<open>"1.2345678,5"\<close>: the digits after the sixth fractional digit add nothing,
  but the integer part \<open>1\<close> is added unscaled to the fraction \<open>234567\<close>, since
  \<open>result\<close> is multiplied by \<open>10\<^sup>6\<close> only when no \<open>'.'\<close> was found. The six-decimal
  truncation of the written number is \<open>1234567\<close>.
\<close>

theorem parse_fraction_integer_part_unscaled:
  "parseCoordinate ''1.2345678,5'' = Inr \<lparr>latitude = 234568, longitude = 5000000\<rparr>"
  by (simp add: parse_defs cong: bindE_weak_cong let_weak_cong)

section \<open>The distance estimator\<close>

text \<open>
  Claim C3 at the latitudes 45 and 90 degrees. The claimed factor
  \<open>(90\<times>10\<^sup>6 - |lat|) / 90\<times>10\<^sup>6\<close>, with \<open>lat\<close> the six-decimal fixed-point latitude, is
  \<open>500000\<close> at 45 degrees and \<open>0\<close> at the pole, as the source's comment says
  (\<open>1\<close> at the equator, \<open>0\<close> at the poles). The code subtracts the latitude in whole
  degrees (\<open>coord1.latitude / precision\<close>) from \<open>90\<times>10\<^sup>6\<close>, so its factor is
  \<open>999999\<close> at both.
\<close>

theorem cosLat1_whole_degrees_subtracted:
  "cosLat1 45000000 = Inr 999999 \<and> cosLat1 90000000 = Inr 999999"
  by (simp add: dist_defs cong: bindE_weak_cong let_weak_cong)

text \<open>
  Claim C2, as stated: the distance is symmetric for every two valid coordinate strings.
  From \<open>"0,0"\<close> to \<open>"1,1"\<close> the east-west factor is that of latitude 0, in the other
  direction that of latitude 1, and the two distances differ.
\<close>

theorem calculateDistance_symmetry_counterexample:
  "calculateDistance ''0,0'' ''1,1'' = Inr 157250 \<and>
   calculateDistance ''1,1'' ''0,0'' = Inr 157249"
  by (simp add: dist_defs cong: bindE_weak_cong let_weak_cong)

section \<open>Reports and queries\<close>



text \<open>
  A distance needs both strings parsed, the first one first.
\<close>

lemma calculateDistance_malformed_second:
  "parseCoordinate loc = Inl err \<Longrightarrow> \<exists>err'. calculateDistance l loc = Inl err'"
  by (cases "parseCoordinate l") (simp_all add: calculateDistance_def)

lemma calculateDistance_malformed_first:
  "parseCoordinate loc = Inl err \<Longrightarrow> calculateDistance loc l = Inl err"
  by (simp add: calculateDistance_def)

lemma mergeLoop_malformed:
  assumes "parseCoordinate loc = Inl err" "x \<in> set xs" "location x \<noteq> loc"
  shows "\<exists>err'. mergeLoop now radius loc xs = Inl err'"
  using assms(2,3)
proof (induction xs)
  case Nil
  then show ?case by simp
next
  case (Cons y ys)
  show ?case
  proof (cases "location y = loc")
    case True
    with Cons show ?thesis by (auto simp: compareLocations_def)
  next
    case False
    from calculateDistance_malformed_second [OF assms(1), of "location y"]
    obtain err' where "calculateDistance (location y) loc = Inl err'" by blast
    with False show ?thesis
      by (simp add: compareLocations_def isWithinRadius_def)
  qed
qed

text \<open>
  What the first loop of \<open>reportInfection\<close> does to the entries: the locations stay, no
  count goes down, and the flag tells whether the location was there.
\<close>

lemma markLoop_result:
  "markLoop now loc xs = Inr (xs', ex, evs) \<Longrightarrow>
     list_all2 (\<lambda>x x'. location x' = location x \<and> infectedCount x \<le> infectedCount x') xs xs'
     \<and> (ex \<longleftrightarrow> loc \<in> location ` set xs)"
proof (induction xs arbitrary: xs' ex evs)
  case Nil
  then show ?case by simp
next
  case (Cons y ys)
  show ?case
  proof (cases "location y = loc")
    case True
    with Cons.prems show ?thesis
      by (auto simp: compareLocations_def uint256_def list_all2_refl split: if_splits)
  next
    case False
    with Cons.prems obtain zs
      where m: "markLoop now loc ys = Inr (zs, ex, evs)" and xs': "xs' = y # zs"
      by (cases "markLoop now loc ys") (auto simp: compareLocations_def)
    from Cons.IH [OF m] False xs' show ?thesis by auto
  qed
qed

lemma list_all2_same_locations:
  "list_all2 (\<lambda>x x'. location x' = location x \<and> P x x') xs xs' \<Longrightarrow>
     map location xs' = map location xs"
  by (induction rule: list_all2_induct) auto

text \<open>
  Claim C1, as stated: a positive report with a malformed location fails for every prior
  state, also one with no other entry. On the state just constructed the report of
  \<open>"bad-input"\<close> goes through: the record is appended, the entry created and
  \<open>NewInfection\<close> emitted.
\<close>

theorem reportInfection_malformed_counterexample:
  "parseCoordinate ''bad-input'' = Inl (Error ''Invalid coordinate format'') \<and>
   transact \<lparr>msg_sender = 2, block_timestamp = 100\<rparr>
      (constructor \<lparr>msg_sender = 1, block_timestamp = 50\<rparr> 5000)
      (ReportInfection 7 ''bad-input'' True)
   = (\<lparr>owner = 1, outbreakRadius = 5000,
       infectedIndividuals = [\<lparr>individualAddress = 7, ind_location = ''bad-input'',
                               testResult = True, ind_timestamp = 100\<rparr>],
       outbreakLocations = [\<lparr>location = ''bad-input'', infectedCount = 1,
                             timestamp = 100\<rparr>]\<rparr>,
      [NewInfection 7 ''bad-input'' 100])"
  by (simp add: op_defs parse_defs transact_def cong: bindE_weak_cong let_weak_cong)

text \<open>
  With a malformed new location and another entry in the list, the second loop of
  \<open>reportInfection\<close> fails at the first entry with another location, with the error the
  parser gives on that entry's location or, when that one parses, on the new location.
\<close>

lemma mergeLoop_malformed_error:
  assumes "parseCoordinate loc = Inl err" "x \<in> set xs" "location x \<noteq> loc"
  shows "\<exists>l err'. (l = loc \<or> l \<in> location ` set xs) \<and> parseCoordinate l = Inl err'
           \<and> mergeLoop now radius loc xs = Inl err'"
  using assms(2,3)
proof (induction xs)
  case Nil
  then show ?case by simp
next
  case (Cons y ys)
  show ?case
  proof (cases "location y = loc")
    case True
    with Cons obtain l err' where "l = loc \<or> l \<in> location ` set ys"
      "parseCoordinate l = Inl err'" "mergeLoop now radius loc ys = Inl err'"
      by auto
    with True show ?thesis
      by (auto simp: compareLocations_def)
  next
    case False
    show ?thesis
    proof (cases "parseCoordinate (location y)")
      case (Inl e1)
      then have "mergeLoop now radius loc (y # ys) = Inl e1"
        using False
        by (simp add: compareLocations_def isWithinRadius_def calculateDistance_malformed_first)
      with Inl show ?thesis by auto
    next
      case (Inr c)
      then have "calculateDistance (location y) loc = Inl err"
        using assms(1) by (simp add: calculateDistance_def)
      then have "mergeLoop now radius loc (y # ys) = Inl err"
        using False by (simp add: compareLocations_def isWithinRadius_def)
      with assms(1) show ?thesis by auto
    qed
  qed
qed

text \<open>The first loop fails only when the count it increments is the largest \<open>uint256\<close>.\<close>

lemma markLoop_succeeds:
  assumes "\<forall>y\<in>set xs. location y = loc \<longrightarrow> infectedCount y < 2 ^ 256 - 1"
  shows "\<exists>xs' ex evs. markLoop now loc xs = Inr (xs', ex, evs)"
  using assms
proof (induction xs)
  case Nil
  then show ?case by auto
next
  case (Cons y ys)
  show ?case
  proof (cases "location y = loc")
    case True
    with Cons.prems have "infectedCount y + 1 < 2 ^ 256" by simp
    with True show ?thesis by (auto simp: compareLocations_def uint256_def)
  next
    case False
    from Cons obtain xs' ex evs where "markLoop now loc ys = Inr (xs', ex, evs)" by auto
    with False show ?thesis by (auto simp: compareLocations_def)
  qed
qed

text \<open>
  Claim C1, amended. For every identity and every malformed location string, a positive
  report fails whenever the registry already holds an entry with another location string,
  and the call reverts: the state is as before and nothing is emitted. The failure is a
  \<open>ParseError\<close>, the error the parser gives on the reported location or on a stored one,
  unless the count of an entry at that same string is the largest \<open>uint256\<close>; it is the
  parser's error on the reported location itself when moreover the other stored locations
  parse.
\<close>

theorem reportInfection_malformed_reverts:
  assumes "parseCoordinate loc = Inl err"
    and "x \<in> set (outbreakLocations s)" and "location x \<noteq> loc"
  shows "(\<exists>err'. reportInfection e s a loc True = Inl err')
     \<and> ((\<forall>y\<in>set (outbreakLocations s). location y = loc \<longrightarrow> infectedCount y < 2 ^ 256 - 1) \<longrightarrow>
          (\<exists>l err'. (l = loc \<or> l \<in> location ` set (outbreakLocations s))
             \<and> parseCoordinate l = Inl err' \<and> reportInfection e s a loc True = Inl err'))
     \<and> ((\<forall>y\<in>set (outbreakLocations s).
            (location y = loc \<longrightarrow> infectedCount y < 2 ^ 256 - 1)
          \<and> (location y \<noteq> loc \<longrightarrow> (\<exists>c. parseCoordinate (location y) = Inr c))) \<longrightarrow>
          reportInfection e s a loc True = Inl err)
     \<and> transact e s (ReportInfection a loc True) = (s, [])"
proof -
  have fails: "\<exists>err'. reportInfection e s a loc True = Inl err'"
  proof (cases "markLoop (block_timestamp e) loc (outbreakLocations s)")
    case (Inl err')
    then show ?thesis by (simp add: reportInfection_def)
  next
    case (Inr r)
    obtain xs ex evs where r: "r = (xs, ex, evs)" by (cases r) auto
    from markLoop_result [OF Inr [unfolded r]]
    have "map location xs = map location (outbreakLocations s)"
      by (auto dest: list_all2_same_locations)
    then have "location x \<in> location ` set xs"
      using assms(2) by (metis image_eqI list.set_map)
    then obtain x' where x': "x' \<in> set xs" "location x' \<noteq> loc"
      using assms(3) by auto
    obtain e1 where e1: "mergeLoop (block_timestamp e) (outbreakRadius s) loc xs = Inl e1"
      using mergeLoop_malformed [OF assms(1) x'(1) x'(2)] by blast
    obtain e2 where e2: "mergeLoop (block_timestamp e) (outbreakRadius s) loc
        (xs @ [\<lparr>location = loc, infectedCount = 1, timestamp = block_timestamp e\<rparr>]) = Inl e2"
      using mergeLoop_malformed [OF assms(1) _ x'(2), of "xs @ [_]"] x'(1)
      by (metis Un_iff set_append)
    show ?thesis
      using Inr r e1 e2
      by (cases ex) (simp_all add: reportInfection_def checkAndMergeOutbreaks_def Let_def)
  qed
  have parser: "\<exists>l err'. (l = loc \<or> l \<in> location ` set (outbreakLocations s))
             \<and> parseCoordinate l = Inl err' \<and> reportInfection e s a loc True = Inl err'"
    if nof: "\<forall>y\<in>set (outbreakLocations s). location y = loc \<longrightarrow> infectedCount y < 2 ^ 256 - 1"
  proof -
    from markLoop_succeeds [OF nof] obtain xs ex evs
      where m: "markLoop (block_timestamp e) loc (outbreakLocations s) = Inr (xs, ex, evs)"
      by blast
    let ?new = "\<lparr>location = loc, infectedCount = 1, timestamp = block_timestamp e\<rparr>"
    let ?zs = "if ex then xs else xs @ [?new]"
    from markLoop_result [OF m]
    have locs: "map location xs = map location (outbreakLocations s)"
      by (auto dest: list_all2_same_locations)
    then have img: "location ` set xs = location ` set (outbreakLocations s)"
      by (metis list.set_map)
    with assms(2) obtain x' where x': "x' \<in> set xs" "location x' = location x"
      by (metis (no_types, lifting) image_iff)
    then have x'': "x' \<in> set ?zs" "location x' \<noteq> loc" using assms(3) by auto
    from mergeLoop_malformed_error [OF assms(1) x'']
    obtain l err' where l: "l = loc \<or> l \<in> location ` set ?zs"
      and p: "parseCoordinate l = Inl err'"
      and ml: "mergeLoop (block_timestamp e) (outbreakRadius s) loc ?zs = Inl err'"
      by blast
    from l img have l': "l = loc \<or> l \<in> location ` set (outbreakLocations s)"
      by (auto split: if_splits)
    have "reportInfection e s a loc True = Inl err'"
      using m ml by (cases ex) (simp_all add: reportInfection_def checkAndMergeOutbreaks_def Let_def)
    with l' p show ?thesis by blast
  qed
  have exact: "reportInfection e s a loc True = Inl err"
    if ok: "\<forall>y\<in>set (outbreakLocations s).
            (location y = loc \<longrightarrow> infectedCount y < 2 ^ 256 - 1)
          \<and> (location y \<noteq> loc \<longrightarrow> (\<exists>c. parseCoordinate (location y) = Inr c))"
  proof -
    from ok have "\<forall>y\<in>set (outbreakLocations s). location y = loc \<longrightarrow> infectedCount y < 2 ^ 256 - 1"
      by blast
    from parser [OF this] obtain l err' where l: "l = loc \<or> l \<in> location ` set (outbreakLocations s)"
      and p: "parseCoordinate l = Inl err'" and r: "reportInfection e s a loc True = Inl err'"
      by blast
    have "l = loc"
    proof (rule ccontr)
      assume n: "l \<noteq> loc"
      with l obtain y where "y \<in> set (outbreakLocations s)" "location y = l" by auto
      with ok n obtain c where "parseCoordinate l = Inr c" by blast
      with p show False by simp
    qed
    with p assms(1) r show ?thesis by simp
  qed
  from fails have "transact e s (ReportInfection a loc True) = (s, [])"
    by (auto simp: transact_def)
  with fails parser exact show ?thesis by blast
qed

theorem reportInfection_malformed_reverts_witness:
  "parseCoordinate ''bad-input'' = Inl (Error ''Invalid coordinate format'')
   \<and> \<lparr>location = ''0,0'', infectedCount = 1, timestamp = 50\<rparr>
       \<in> set (outbreakLocations \<lparr>owner = 1, outbreakRadius = 5000, infectedIndividuals = [],
            outbreakLocations = [\<lparr>location = ''0,0'', infectedCount = 1, timestamp = 50\<rparr>]\<rparr>)
   \<and> location \<lparr>location = ''0,0'', infectedCount = 1, timestamp = 50\<rparr> \<noteq> ''bad-input''
   \<and> parseCoordinate ''0,0'' = Inr \<lparr>latitude = 0, longitude = 0\<rparr>
   \<and> reportInfection \<lparr>msg_sender = 2, block_timestamp = 100\<rparr>
        \<lparr>owner = 1, outbreakRadius = 5000, infectedIndividuals = [],
          outbreakLocations = [\<lparr>location = ''0,0'', infectedCount = 1, timestamp = 50\<rparr>]\<rparr>
        7 ''bad-input'' True
       = Inl (Error ''Invalid coordinate format'')
   \<and> transact \<lparr>msg_sender = 2, block_timestamp = 100\<rparr>
        \<lparr>owner = 1, outbreakRadius = 5000, infectedIndividuals = [],
          outbreakLocations = [\<lparr>location = ''0,0'', infectedCount = 1, timestamp = 50\<rparr>]\<rparr>
        (ReportInfection 7 ''bad-input'' True)
       = (\<lparr>owner = 1, outbreakRadius = 5000, infectedIndividuals = [],
           outbreakLocations = [\<lparr>location = ''0,0'', infectedCount = 1, timestamp = 50\<rparr>]\<rparr>, [])"
proof -
  have h1: "parseCoordinate ''bad-input'' = Inl (Error ''Invalid coordinate format'')"
    by (simp add: parse_defs)
  have h2: "\<lparr>location = ''0,0'', infectedCount = 1, timestamp = 50\<rparr>
       \<in> set (outbreakLocations \<lparr>owner = 1, outbreakRadius = 5000, infectedIndividuals = [],
            outbreakLocations = [\<lparr>location = ''0,0'', infectedCount = 1, timestamp = 50\<rparr>]\<rparr>)"
    by simp
  have h3: "location \<lparr>location = ''0,0'', infectedCount = 1, timestamp = 50\<rparr> \<noteq> ''bad-input''"
    by simp
  have h4: "parseCoordinate ''0,0'' = Inr \<lparr>latitude = 0, longitude = 0\<rparr>"
    by (simp add: parse_defs cong: bindE_weak_cong let_weak_cong)
  from reportInfection_malformed_reverts [OF h1 h2 h3,
      of "\<lparr>msg_sender = 2, block_timestamp = 100\<rparr>" 7] h1 h2 h3 h4
  show ?thesis by simp
qed

text \<open>
  With a malformed query the exposure loop fails at the first record it does not skip, and
  returns when it skips them all.
\<close>

lemma exposureLoop_malformed:
  assumes "parseCoordinate loc = Inl err"
  shows "((\<exists>r\<in>set rs. now - ind_timestamp r \<le> t) \<longrightarrow>
            (\<exists>err'. exposureLoop now radius loc t rs ex n = Inl err'))
       \<and> ((\<exists>r\<in>set rs. now - ind_timestamp r \<le> t) \<and> (\<forall>r\<in>set rs. ind_timestamp r \<le> now) \<longrightarrow>
            exposureLoop now radius loc t rs ex n = Inl err)
       \<and> (\<not> (\<exists>r\<in>set rs. now - ind_timestamp r \<le> t) \<longrightarrow>
            exposureLoop now radius loc t rs ex n = Inr (ex, n))"
  by (induction rs) (auto simp: isWithinRadius_def calculateDistance_malformed_first [OF assms])

text \<open>
  Claim C4, as stated: with a malformed query \<open>checkExposureRisk\<close> fails for every ledger,
  also the empty one. On the empty ledger it returns \<open>(false, 0)\<close>.
\<close>

theorem checkExposureRisk_malformed_counterexample:
  "parseCoordinate ''bad-input'' = Inl (Error ''Invalid coordinate format'') \<and>
   checkExposureRisk \<lparr>msg_sender = 2, block_timestamp = 100\<rparr>
      (constructor \<lparr>msg_sender = 1, block_timestamp = 50\<rparr> 5000) ''bad-input'' 0
   = Inr (False, 0)"
  by (simp add: op_defs parse_defs cong: bindE_weak_cong let_weak_cong)

text \<open>
  Claim C4, amended. For every time threshold and every malformed query location,
  \<open>checkExposureRisk\<close> fails when the ledger has a record inside the time window (one
  with \<open>now - recordedAt \<le> threshold\<close>), and with the parser's own error when no record
  is dated after \<open>now\<close>; when every record is older than the threshold, and so on the
  empty ledger, it returns \<open>(false, 0)\<close> and the query is never parsed.
\<close>

theorem checkExposureRisk_malformed_query:
  assumes "parseCoordinate loc = Inl err"
  shows "((\<exists>r\<in>set (infectedIndividuals s). block_timestamp e - ind_timestamp r \<le> t) \<longrightarrow>
            (\<exists>err'. checkExposureRisk e s loc t = Inl err'))
       \<and> ((\<exists>r\<in>set (infectedIndividuals s). block_timestamp e - ind_timestamp r \<le> t)
           \<and> (\<forall>r\<in>set (infectedIndividuals s). ind_timestamp r \<le> block_timestamp e) \<longrightarrow>
            checkExposureRisk e s loc t = Inl err)
       \<and> (\<not> (\<exists>r\<in>set (infectedIndividuals s). block_timestamp e - ind_timestamp r \<le> t) \<longrightarrow>
            checkExposureRisk e s loc t = Inr (False, 0))"
  unfolding checkExposureRisk_def by (rule exposureLoop_malformed [OF assms])

theorem checkExposureRisk_malformed_query_witness:
  "parseCoordinate ''bad-input'' = Inl (Error ''Invalid coordinate format'')
   \<and> checkExposureRisk \<lparr>msg_sender = 2, block_timestamp = 100\<rparr>
       \<lparr>owner = 1, outbreakRadius = 5000,
         infectedIndividuals = [\<lparr>individualAddress = 7, ind_location = ''0,0'',
                                 testResult = True, ind_timestamp = 90\<rparr>],
         outbreakLocations = [\<lparr>location = ''0,0'', infectedCount = 1, timestamp = 90\<rparr>]\<rparr>
       ''bad-input'' 10 = Inl (Error ''Invalid coordinate format'')
   \<and> checkExposureRisk \<lparr>msg_sender = 2, block_timestamp = 100\<rparr>
       \<lparr>owner = 1, outbreakRadius = 5000,
         infectedIndividuals = [\<lparr>individualAddress = 7, ind_location = ''0,0'',
                                 testResult = True, ind_timestamp = 90\<rparr>],
         outbreakLocations = [\<lparr>location = ''0,0'', infectedCount = 1, timestamp = 90\<rparr>]\<rparr>
       ''bad-input'' 5 = Inr (False, 0)"
proof -
  have h: "parseCoordinate ''bad-input'' = Inl (Error ''Invalid coordinate format'')"
    by (simp add: parse_defs)
  from checkExposureRisk_malformed_query [OF h,
      of "\<lparr>owner = 1, outbreakRadius = 5000,
         infectedIndividuals = [\<lparr>individualAddress = 7, ind_location = ''0,0'',
                                 testResult = True, ind_timestamp = 90\<rparr>],
         outbreakLocations = [\<lparr>location = ''0,0'', infectedCount = 1, timestamp = 90\<rparr>]\<rparr>"
         "\<lparr>msg_sender = 2, block_timestamp = 100\<rparr>" 10]
    checkExposureRisk_malformed_query [OF h,
      of "\<lparr>owner = 1, outbreakRadius = 5000,
         infectedIndividuals = [\<lparr>individualAddress = 7, ind_location = ''0,0'',
                                 testResult = True, ind_timestamp = 90\<rparr>],
         outbreakLocations = [\<lparr>location = ''0,0'', infectedCount = 1, timestamp = 90\<rparr>]\<rparr>"
         "\<lparr>msg_sender = 2, block_timestamp = 100\<rparr>" 5]
    h
  show ?thesis by simp
qed

section \<open>The state invariant\<close>

lemma bindE_eq_Inr: "bindE m f = Inr v \<longleftrightarrow> (\<exists>u. m = Inr u \<and> f u = Inr v)"
  by (cases m) auto

text \<open>
  A report that goes through either was negative and changed nothing, or appended one
  record and left the entries as the first loop made them, with the new entry at the end
  when the location was not there.
\<close>

lemma reportInfection_Inr:
  assumes "reportInfection e s a loc res = Inr (s', evs)"
  shows "(\<not> res \<and> s' = s) \<or>
    (\<exists>xs ex evs1. markLoop (block_timestamp e) loc (outbreakLocations s) = Inr (xs, ex, evs1)
       \<and> outbreakLocations s' = (if ex then xs
            else xs @ [\<lparr>location = loc, infectedCount = 1, timestamp = block_timestamp e\<rparr>])
       \<and> infectedIndividuals s' = infectedIndividuals s @
            [\<lparr>individualAddress = a, ind_location = loc, testResult = res,
              ind_timestamp = block_timestamp e\<rparr>])"
proof (cases res)
  case False
  with assms show ?thesis by (simp add: reportInfection_def)
next
  case True
  from assms True obtain xs ex evs1 where
    m: "markLoop (block_timestamp e) loc (outbreakLocations s) = Inr (xs, ex, evs1)"
    and s': "s' = (if \<not> ex
          then s\<lparr>infectedIndividuals := infectedIndividuals s @
                   [\<lparr>individualAddress = a, ind_location = loc,
                     testResult = True, ind_timestamp = block_timestamp e\<rparr>],
                 outbreakLocations := xs @
                   [\<lparr>location = loc, infectedCount = 1, timestamp = block_timestamp e\<rparr>]\<rparr>
          else s\<lparr>infectedIndividuals := infectedIndividuals s @
                   [\<lparr>individualAddress = a, ind_location = loc,
                     testResult = True, ind_timestamp = block_timestamp e\<rparr>],
                 outbreakLocations := xs\<rparr>)"
    unfolding reportInfection_def Let_def
    by (auto simp: bindE_eq_Inr split: if_splits)
  from m s' True show ?thesis by auto
qed

lemma reportInfection_invariant:
  assumes "distinct (map location (outbreakLocations s))"
    and "reportInfection e s a loc res = Inr (s', evs)"
  shows "distinct (map location (outbreakLocations s'))
     \<and> length (infectedIndividuals s) \<le> length (infectedIndividuals s')
     \<and> length (outbreakLocations s) \<le> length (outbreakLocations s')
     \<and> (\<forall>i<length (outbreakLocations s).
           location (outbreakLocations s' ! i) = location (outbreakLocations s ! i)
         \<and> infectedCount (outbreakLocations s ! i) \<le> infectedCount (outbreakLocations s' ! i))"
  using reportInfection_Inr [OF assms(2)]
proof (elim disjE exE conjE)
  assume "\<not> res" "s' = s"
  with assms(1) show ?thesis by simp
next
  fix xs ex evs1
  assume m: "markLoop (block_timestamp e) loc (outbreakLocations s) = Inr (xs, ex, evs1)"
    and o: "outbreakLocations s' = (if ex then xs
            else xs @ [\<lparr>location = loc, infectedCount = 1, timestamp = block_timestamp e\<rparr>])"
    and l: "infectedIndividuals s' = infectedIndividuals s @
            [\<lparr>individualAddress = a, ind_location = loc, testResult = res,
              ind_timestamp = block_timestamp e\<rparr>]"
  from markLoop_result [OF m]
  have a2: "list_all2 (\<lambda>x x'. location x' = location x \<and> infectedCount x \<le> infectedCount x')
      (outbreakLocations s) xs"
    and ex: "ex \<longleftrightarrow> loc \<in> location ` set (outbreakLocations s)" by auto
  from a2 have locs: "map location xs = map location (outbreakLocations s)"
    by (rule list_all2_same_locations)
  from a2 have len: "length xs = length (outbreakLocations s)"
    by (simp add: list_all2_lengthD)
  from a2 have nth: "location (xs ! i) = location (outbreakLocations s ! i)
      \<and> infectedCount (outbreakLocations s ! i) \<le> infectedCount (xs ! i)"
    if "i < length (outbreakLocations s)" for i
    using that by (simp add: list_all2_conv_all_nth)
  have d: "distinct (map location (outbreakLocations s'))"
    using assms(1) locs ex o by (cases ex) auto
  show ?thesis
    using d l o len nth by (cases ex) (auto simp: nth_append)
qed

text \<open>
  Claim C8. Every call, whether it goes through or reverts (\<open>reportInfection\<close>,
  \<open>reportNewLocation\<close>, \<open>setOutbreakRadius\<close> and the reads), keeps the location
  strings of the entries pairwise distinct, does not shorten the ledger, and keeps every
  entry in its place with its location and a count that is not smaller.
\<close>

theorem transact_preserves_invariant:
  assumes "distinct (map location (outbreakLocations s))"
    and "transact e s c = (s', evs)"
  shows "distinct (map location (outbreakLocations s'))
     \<and> length (infectedIndividuals s) \<le> length (infectedIndividuals s')
     \<and> length (outbreakLocations s) \<le> length (outbreakLocations s')
     \<and> (\<forall>i<length (outbreakLocations s).
           location (outbreakLocations s' ! i) = location (outbreakLocations s ! i)
         \<and> infectedCount (outbreakLocations s ! i) \<le> infectedCount (outbreakLocations s' ! i))"
proof (cases "exec e s c")
  case (Inl err)
  with assms show ?thesis by (simp add: transact_def)
next
  case (Inr r)
  with assms(2) have ex: "exec e s c = Inr (s', evs)" by (simp add: transact_def)
  show ?thesis
  proof (cases c)
    case (ReportInfection a loc res)
    with ex assms(1) show ?thesis by (simp add: reportInfection_invariant)
  next
    case (ReportNewLocation loc)
    with ex have "s' = s"
      by (cases "checkProximity s loc") (auto simp: reportNewLocation_def split: if_splits)
    with assms(1) show ?thesis by simp
  next
    case (SetOutbreakRadius r)
    with ex have "s' = s\<lparr>outbreakRadius := r\<rparr>"
      by (auto simp: setOutbreakRadius_def split: if_splits)
    with assms(1) show ?thesis by simp
  next
    case (CheckProximity loc)
    with ex have "s' = s" by (cases "checkProximity s loc") auto
    with assms(1) show ?thesis by simp
  next
    case (CheckExposureRisk loc t)
    with ex have "s' = s" by (cases "checkExposureRisk e s loc t") auto
    with assms(1) show ?thesis by simp
  next
    case GetInfectedCount
    with ex assms(1) show ?thesis by simp
  next
    case GetOutbreakLocationsCount
    with ex assms(1) show ?thesis by simp
  next
    case GetAllOutbreakLocations
    with ex assms(1) show ?thesis by simp
  qed
qed

theorem transact_preserves_invariant_witness:
  "distinct (map location (outbreakLocations
      \<lparr>owner = 1, outbreakRadius = 5000,
        infectedIndividuals = [\<lparr>individualAddress = 7, ind_location = ''0,0'',
                                testResult = True, ind_timestamp = 50\<rparr>],
        outbreakLocations = [\<lparr>location = ''0,0'', infectedCount = 1, timestamp = 50\<rparr>]\<rparr>))
   \<and> transact \<lparr>msg_sender = 2, block_timestamp = 100\<rparr>
      \<lparr>owner = 1, outbreakRadius = 5000,
        infectedIndividuals = [\<lparr>individualAddress = 7, ind_location = ''0,0'',
                                testResult = True, ind_timestamp = 50\<rparr>],
        outbreakLocations = [\<lparr>location = ''0,0'', infectedCount = 1, timestamp = 50\<rparr>]\<rparr>
      (ReportInfection 8 ''0,0'' True)
     = (\<lparr>owner = 1, outbreakRadius = 5000,
         infectedIndividuals = [\<lparr>individualAddress = 7, ind_location = ''0,0'',
                                 testResult = True, ind_timestamp = 50\<rparr>,
                                \<lparr>individualAddress = 8, ind_location = ''0,0'',
                                 testResult = True, ind_timestamp = 100\<rparr>],
         outbreakLocations = [\<lparr>location = ''0,0'', infectedCount = 2, timestamp = 100\<rparr>]\<rparr>,
        [PotentialOutbreak ''0,0'' 2 100])
   \<and> distinct (map location
        [\<lparr>location = ''0,0'', infectedCount = 2, timestamp = 100\<rparr>])
   \<and> infectedCount \<lparr>location = ''0,0'', infectedCount = 1, timestamp = 50\<rparr>
       \<le> infectedCount \<lparr>location = ''0,0'', infectedCount = 2, timestamp = 100\<rparr>"
proof -
  have h1: "distinct (map location (outbreakLocations
      \<lparr>owner = 1, outbreakRadius = 5000,
        infectedIndividuals = [\<lparr>individualAddress = 7, ind_location = ''0,0'',
                                testResult = True, ind_timestamp = 50\<rparr>],
        outbreakLocations = [\<lparr>location = ''0,0'', infectedCount = 1, timestamp = 50\<rparr>]\<rparr>))"
    by simp
  have h2: "transact \<lparr>msg_sender = 2, block_timestamp = 100\<rparr>
      \<lparr>owner = 1, outbreakRadius = 5000,
        infectedIndividuals = [\<lparr>individualAddress = 7, ind_location = ''0,0'',
                                testResult = True, ind_timestamp = 50\<rparr>],
        outbreakLocations = [\<lparr>location = ''0,0'', infectedCount = 1, timestamp = 50\<rparr>]\<rparr>
      (ReportInfection 8 ''0,0'' True)
     = (\<lparr>owner = 1, outbreakRadius = 5000,
         infectedIndividuals = [\<lparr>individualAddress = 7, ind_location = ''0,0'',
                                 testResult = True, ind_timestamp = 50\<rparr>,
                                \<lparr>individualAddress = 8, ind_location = ''0,0'',
                                 testResult = True, ind_timestamp = 100\<rparr>],
         outbreakLocations = [\<lparr>location = ''0,0'', infectedCount = 2, timestamp = 100\<rparr>]\<rparr>,
        [PotentialOutbreak ''0,0'' 2 100])"
    by (simp add: transact_def op_defs uint256_def cong: bindE_weak_cong let_weak_cong)
  from transact_preserves_invariant [OF h1 h2] h1 h2
  show ?thesis by simp
qed

section \<open>The closest outbreak\<close>

text \<open>
  The square root is at most its argument, so a distance is below the initial value of
  \<open>closestDistance\<close>, the largest \<open>uint256\<close>.
\<close>

lemma sqrtLoop_le: "sqrtLoop z y w = Inr r \<Longrightarrow> r \<le> w"
proof (induction z y w rule: sqrtLoop.induct)
  case (1 z y w)
  show ?case
  proof (cases "y < w")
    case True
    with "1.prems" obtain s where "y \<noteq> 0" "sqrtLoop z (s div 2) y = Inr r"
      by (subst (asm) sqrtLoop.simps) (auto simp: bindE_eq_Inr split: if_splits)
    with "1.IH" True have "r \<le> y" by blast
    with True show ?thesis by simp
  next
    case False
    with "1.prems" show ?thesis
      by (subst (asm) sqrtLoop.simps) simp
  qed
qed

lemma sqrt_sol_le: "sqrt_sol x = Inr r \<Longrightarrow> r \<le> max 0 x"
  by (auto simp: sqrt_sol_def Let_def bindE_eq_Inr split: if_splits dest!: sqrtLoop_le)

lemma int256_Inr: "int256 v = Inr s \<Longrightarrow> s = v \<and> - (2 ^ 255) \<le> v \<and> v < 2 ^ 255"
  by (auto simp: int256_def split: if_splits)

lemma calculateDistance_Inr_sqrt:
  "calculateDistance a b = Inr d \<Longrightarrow> \<exists>v s r. int256 v = Inr s \<and> sqrt_sol s = Inr r \<and> d = nat r"
  unfolding calculateDistance_def Let_def bindE_eq_Inr by blast

lemma calculateDistance_bound:
  assumes "calculateDistance a b = Inr d"
  shows "d < 2 ^ 256 - 1"
proof -
  from calculateDistance_Inr_sqrt [OF assms]
  obtain v s r where v: "int256 v = Inr s" and r: "sqrt_sol s = Inr r" and d: "d = nat r"
    by blast
  from int256_Inr [OF v] have "s < 2 ^ 255" by simp
  with sqrt_sol_le [OF r] have "r < 2 ^ 255" by simp
  then have "nat r < 2 ^ 255" by (simp add: nat_less_iff)
  then show ?thesis using d by simp
qed


text \<open>
  The invariant of the loop of \<open>checkProximity\<close>, with \<open>d j\<close> the distance of entry
  \<open>j\<close>: before entry \<open>i\<close>, either nothing was found and every entry seen is out of
  the radius, or \<open>closestIndex\<close> is the first of the entries seen whose distance is the
  least of those in the radius.
\<close>

lemma proximityLoop_invariant:
  assumes "\<forall>j<length ys. calculateDistance q (location (ys ! j)) = Inr (d (i + j))"
    and "(\<not> f \<and> cd = 2 ^ 256 - 1 \<and> (\<forall>j<i. R < d j))
       \<or> (f \<and> ci < i \<and> cd = d ci \<and> d ci \<le> R
            \<and> (\<forall>j<i. d j \<le> R \<longrightarrow> d ci \<le> d j) \<and> (\<forall>j<ci. d j \<noteq> d ci))"
  shows "\<exists>cd' ci' f'. proximityLoop q R ys i cd ci f = Inr (cd', ci', f')
       \<and> ((\<not> f' \<and> (\<forall>j<i + length ys. R < d j))
         \<or> (f' \<and> ci' < i + length ys \<and> cd' = d ci' \<and> d ci' \<le> R
            \<and> (\<forall>j<i + length ys. d j \<le> R \<longrightarrow> d ci' \<le> d j) \<and> (\<forall>j<ci'. d j \<noteq> d ci')))"
  using assms
proof (induction ys arbitrary: i cd ci f)
  case Nil
  then show ?case by auto
next
  case (Cons y ys)
  from Cons.prems(1) have di: "calculateDistance q (location y) = Inr (d i)"
    by fastforce
  from Cons.prems(1) have rest:
    "\<forall>j<length ys. calculateDistance q (location (ys ! j)) = Inr (d (Suc i + j))"
    by fastforce
  from calculateDistance_bound [OF di] have bound: "d i < 2 ^ 256 - 1" .
  show ?case
  proof (cases "d i \<le> R \<and> d i < cd")
    case True
    have inv: "(\<not> True \<and> d i = 2 ^ 256 - 1 \<and> (\<forall>j<Suc i. R < d j))
       \<or> (True \<and> i < Suc i \<and> d i = d i \<and> d i \<le> R
            \<and> (\<forall>j<Suc i. d j \<le> R \<longrightarrow> d i \<le> d j) \<and> (\<forall>j<i. d j \<noteq> d i))"
      using Cons.prems(2) True by (auto simp: less_Suc_eq)
    from Cons.IH [OF rest inv] True di show ?thesis
      by (simp add: isWithinRadius_def)
  next
    case False
    have inv: "(\<not> f \<and> cd = 2 ^ 256 - 1 \<and> (\<forall>j<Suc i. R < d j))
       \<or> (f \<and> ci < Suc i \<and> cd = d ci \<and> d ci \<le> R
            \<and> (\<forall>j<Suc i. d j \<le> R \<longrightarrow> d ci \<le> d j) \<and> (\<forall>j<ci. d j \<noteq> d ci))"
      using Cons.prems(2) False bound by (auto simp: less_Suc_eq)
    from Cons.IH [OF rest inv] False di show ?thesis
      by (auto simp: isWithinRadius_def)
  qed
qed

text \<open>
  What \<open>checkProximity\<close> returns when the distance \<open>d i\<close> from the query to every
  entry \<open>i\<close> is defined.
\<close>

lemma checkProximity_closest_defined:
  assumes "\<forall>i<length (outbreakLocations s).
      calculateDistance q (location (outbreakLocations s ! i)) = Inr (d i)"
  shows "((\<forall>i<length (outbreakLocations s). outbreakRadius s < d i) \<longrightarrow>
            checkProximity s q = Inr (False, [], 0, 0))
     \<and> (\<forall>k<length (outbreakLocations s).
           d k \<le> outbreakRadius s
           \<and> (\<forall>j<length (outbreakLocations s). d j \<le> outbreakRadius s \<longrightarrow> d k \<le> d j)
           \<and> (\<forall>j<k. d j \<noteq> d k) \<longrightarrow>
           checkProximity s q =
             Inr (True, location (outbreakLocations s ! k),
                  infectedCount (outbreakLocations s ! k), d k))"
proof -
  let ?xs = "outbreakLocations s" and ?R = "outbreakRadius s"
  have a: "\<forall>j<length ?xs. calculateDistance q (location (?xs ! j)) = Inr (d (0 + j))"
    using assms by simp
  have init: "(\<not> False \<and> (2 ^ 256 - 1 :: nat) = 2 ^ 256 - 1 \<and> (\<forall>j<0. ?R < d j))
       \<or> (False \<and> 0 < (0::nat) \<and> 2 ^ 256 - 1 = d 0 \<and> d 0 \<le> ?R
            \<and> (\<forall>j<0. d j \<le> ?R \<longrightarrow> d 0 \<le> d j) \<and> (\<forall>j<0. d j \<noteq> d 0))"
    by simp
  from proximityLoop_invariant [OF a init]
  obtain cd ci f where loop: "proximityLoop q ?R ?xs 0 (2 ^ 256 - 1) 0 False = Inr (cd, ci, f)"
    and inv: "(\<not> f \<and> (\<forall>j<length ?xs. ?R < d j))
         \<or> (f \<and> ci < length ?xs \<and> cd = d ci \<and> d ci \<le> ?R
            \<and> (\<forall>j<length ?xs. d j \<le> ?R \<longrightarrow> d ci \<le> d j) \<and> (\<forall>j<ci. d j \<noteq> d ci))"
    by auto
  show ?thesis
  proof (cases f)
    case False
    with inv have "\<forall>j<length ?xs. ?R < d j" by simp
    with loop False show ?thesis
      by (auto simp: checkProximity_def)
  next
    case True
    with inv have ci: "ci < length ?xs" "cd = d ci" "d ci \<le> ?R"
      "\<forall>j<length ?xs. d j \<le> ?R \<longrightarrow> d ci \<le> d j" "\<forall>j<ci. d j \<noteq> d ci" by auto
    have res: "checkProximity s q =
        Inr (True, location (?xs ! ci), infectedCount (?xs ! ci), d ci)"
      using loop True ci(1,2) by (simp add: checkProximity_def)
    have uniq: "k = ci" if k: "k < length ?xs" "d k \<le> ?R"
      "\<forall>j<length ?xs. d j \<le> ?R \<longrightarrow> d k \<le> d j" "\<forall>j<k. d j \<noteq> d k" for k
    proof -
      from k ci have "d k = d ci" by (meson le_antisym)
      with k(4) ci(5) show ?thesis by (metis nat_neq_iff)
    qed
    show ?thesis
      using res ci uniq by (metis not_le)
  qed
qed

text \<open>
  The loop stops at the first entry whose distance is not defined, with that error.
\<close>

lemma proximityLoop_first_failure:
  assumes "k < length ys"
    and "\<forall>i<k. \<exists>v. calculateDistance q (location (ys ! i)) = Inr v"
    and "calculateDistance q (location (ys ! k)) = Inl err"
  shows "proximityLoop q R ys i cd ci f = Inl err"
  using assms
proof (induction ys arbitrary: k i cd ci f)
  case Nil
  then show ?case by simp
next
  case (Cons y ys)
  show ?case
  proof (cases k)
    case 0
    with Cons.prems(3) show ?thesis by (simp add: isWithinRadius_def)
  next
    case (Suc k')
    from Cons.prems(2) Suc obtain v where v: "calculateDistance q (location y) = Inr v"
      by fastforce
    from Cons.prems Suc have k': "k' < length ys"
      and pre: "\<forall>i<k'. \<exists>v. calculateDistance q (location (ys ! i)) = Inr v"
      and bad: "calculateDistance q (location (ys ! k')) = Inl err"
      by fastforce+
    from Cons.IH [OF k' pre bad] v show ?thesis
      by (simp add: isWithinRadius_def)
  qed
qed

text \<open>
  Claim C7, as stated: for every registry state and every valid query, \<open>checkProximity\<close>
  returns the closest entry within the radius, or \<open>(false, "", 0, 0)\<close>. After a positive
  report of \<open>"bad-input"\<close> on the state just constructed, which goes through, the valid
  query \<open>"0,0"\<close> makes \<open>checkProximity\<close> revert: the stored location does not parse.
\<close>

theorem checkProximity_stored_malformed_counterexample:
  "parseCoordinate ''0,0'' = Inr \<lparr>latitude = 0, longitude = 0\<rparr>
   \<and> checkProximity
       (fst (projr (reportInfection \<lparr>msg_sender = 2, block_timestamp = 100\<rparr>
          (constructor \<lparr>msg_sender = 1, block_timestamp = 50\<rparr> 5000) 7 ''bad-input'' True)))
       ''0,0''
     = Inl (Error ''Invalid coordinate format'')"
  by (simp add: op_defs dist_defs cong: bindE_weak_cong let_weak_cong)

text \<open>
  Claim C7, amended. For every state and every query whose distance \<open>d i\<close> to each entry
  \<open>i\<close> is defined (the query and every stored location parse, and nothing overflows):
  when no entry is within the radius \<open>checkProximity\<close> returns \<open>(false, "", 0, 0)\<close>;
  otherwise it returns the entry \<open>k\<close> whose distance is the least among the entries with
  distance at most \<open>outbreakRadius\<close>, and among those of that distance the one of lowest
  index (no earlier entry has the same distance), with its count and its distance. When
  the distance to some entry is not defined, the call reverts with the error of the first
  such entry.
\<close>

theorem checkProximity_closest:
  "((\<forall>i<length (outbreakLocations s).
        calculateDistance q (location (outbreakLocations s ! i)) = Inr (d i)) \<longrightarrow>
      ((\<forall>i<length (outbreakLocations s). outbreakRadius s < d i) \<longrightarrow>
            checkProximity s q = Inr (False, [], 0, 0))
      \<and> (\<forall>k<length (outbreakLocations s).
           d k \<le> outbreakRadius s
           \<and> (\<forall>j<length (outbreakLocations s). d j \<le> outbreakRadius s \<longrightarrow> d k \<le> d j)
           \<and> (\<forall>j<k. d j \<noteq> d k) \<longrightarrow>
           checkProximity s q =
             Inr (True, location (outbreakLocations s ! k),
                  infectedCount (outbreakLocations s ! k), d k)))
   \<and> (\<forall>k<length (outbreakLocations s).
         (\<forall>i<k. \<exists>v. calculateDistance q (location (outbreakLocations s ! i)) = Inr v)
         \<and> calculateDistance q (location (outbreakLocations s ! k)) = Inl err \<longrightarrow>
         checkProximity s q = Inl err)"
proof -
  have defined: "(\<forall>i<length (outbreakLocations s).
        calculateDistance q (location (outbreakLocations s ! i)) = Inr (d i)) \<longrightarrow>
      ((\<forall>i<length (outbreakLocations s). outbreakRadius s < d i) \<longrightarrow>
            checkProximity s q = Inr (False, [], 0, 0))
      \<and> (\<forall>k<length (outbreakLocations s).
           d k \<le> outbreakRadius s
           \<and> (\<forall>j<length (outbreakLocations s). d j \<le> outbreakRadius s \<longrightarrow> d k \<le> d j)
           \<and> (\<forall>j<k. d j \<noteq> d k) \<longrightarrow>
           checkProximity s q =
             Inr (True, location (outbreakLocations s ! k),
                  infectedCount (outbreakLocations s ! k), d k))"
    by (rule impI) (rule checkProximity_closest_defined)
  have fails: "\<forall>k<length (outbreakLocations s).
         (\<forall>i<k. \<exists>v. calculateDistance q (location (outbreakLocations s ! i)) = Inr v)
         \<and> calculateDistance q (location (outbreakLocations s ! k)) = Inl err \<longrightarrow>
         checkProximity s q = Inl err"
  proof (intro allI impI)
    fix k
    assume k: "k < length (outbreakLocations s)"
      and "(\<forall>i<k. \<exists>v. calculateDistance q (location (outbreakLocations s ! i)) = Inr v)
         \<and> calculateDistance q (location (outbreakLocations s ! k)) = Inl err"
    then have pre: "\<forall>i<k. \<exists>v. calculateDistance q (location (outbreakLocations s ! i)) = Inr v"
      and bad: "calculateDistance q (location (outbreakLocations s ! k)) = Inl err"
      by blast+
    from proximityLoop_first_failure [OF k pre bad]
    show "checkProximity s q = Inl err"
      by (simp add: checkProximity_def)
  qed
  from defined fails show ?thesis by (rule conjI)
qed

theorem checkProximity_closest_witness:
  "calculateDistance ''0,0'' ''0,1'' = Inr 111193
   \<and> calculateDistance ''0,0'' ''0,-1'' = Inr 111193
   \<and> checkProximity
        \<lparr>owner = 1, outbreakRadius = 200000, infectedIndividuals = [],
          outbreakLocations = [\<lparr>location = ''0,1'', infectedCount = 3, timestamp = 50\<rparr>,
                               \<lparr>location = ''0,-1'', infectedCount = 4, timestamp = 60\<rparr>]\<rparr>
        ''0,0'' = Inr (True, ''0,1'', 3, 111193)
   \<and> calculateDistance ''0,0'' ''x'' = Inl (Error ''Invalid coordinate format'')
   \<and> checkProximity
        \<lparr>owner = 1, outbreakRadius = 200000, infectedIndividuals = [],
          outbreakLocations = [\<lparr>location = ''0,1'', infectedCount = 3, timestamp = 50\<rparr>,
                               \<lparr>location = ''x'', infectedCount = 4, timestamp = 60\<rparr>]\<rparr>
        ''0,0'' = Inl (Error ''Invalid coordinate format'')"
proof -
  have d0: "calculateDistance ''0,0'' ''0,1'' = Inr 111193"
    by (simp add: dist_defs cong: bindE_weak_cong let_weak_cong)
  have d1: "calculateDistance ''0,0'' ''0,-1'' = Inr 111193"
    by (simp add: dist_defs cong: bindE_weak_cong let_weak_cong)
  have d2: "calculateDistance ''0,0'' ''x'' = Inl (Error ''Invalid coordinate format'')"
    by (simp add: dist_defs cong: bindE_weak_cong let_weak_cong)
  have h: "\<forall>i<length (outbreakLocations
        \<lparr>owner = 1, outbreakRadius = 200000, infectedIndividuals = [],
          outbreakLocations = [\<lparr>location = ''0,1'', infectedCount = 3, timestamp = 50\<rparr>,
                               \<lparr>location = ''0,-1'', infectedCount = 4, timestamp = 60\<rparr>]\<rparr>).
      calculateDistance ''0,0'' (location (outbreakLocations
        \<lparr>owner = 1, outbreakRadius = 200000, infectedIndividuals = [],
          outbreakLocations = [\<lparr>location = ''0,1'', infectedCount = 3, timestamp = 50\<rparr>,
                               \<lparr>location = ''0,-1'', infectedCount = 4, timestamp = 60\<rparr>]\<rparr> ! i))
        = Inr ((\<lambda>i. 111193) i)"
    using d0 d1 by (simp add: less_Suc_eq)
  have found: "checkProximity
        \<lparr>owner = 1, outbreakRadius = 200000, infectedIndividuals = [],
          outbreakLocations = [\<lparr>location = ''0,1'', infectedCount = 3, timestamp = 50\<rparr>,
                               \<lparr>location = ''0,-1'', infectedCount = 4, timestamp = 60\<rparr>]\<rparr>
        ''0,0'' = Inr (True, ''0,1'', 3, 111193)"
    using checkProximity_closest [THEN conjunct1, THEN mp, OF h,
        THEN conjunct2, rule_format, of 0]
    by simp
  have reverts: "checkProximity
        \<lparr>owner = 1, outbreakRadius = 200000, infectedIndividuals = [],
          outbreakLocations = [\<lparr>location = ''0,1'', infectedCount = 3, timestamp = 50\<rparr>,
                               \<lparr>location = ''x'', infectedCount = 4, timestamp = 60\<rparr>]\<rparr>
        ''0,0'' = Inl (Error ''Invalid coordinate format'')"
    using checkProximity_closest [of
          "\<lparr>owner = 1, outbreakRadius = 200000, infectedIndividuals = [],
          outbreakLocations = [\<lparr>location = ''0,1'', infectedCount = 3, timestamp = 50\<rparr>,
                               \<lparr>location = ''x'', infectedCount = 4, timestamp = 60\<rparr>]\<rparr>"
          "''0,0''" _ "Error ''Invalid coordinate format''",
        THEN conjunct2, rule_format, of 1] d0 d2
    by simp
  from d0 d1 d2 found reverts show ?thesis by blast
qed

section \<open>Symmetry of the distance\<close>

text \<open>
  Solidity's signed division rounds towards zero, so it commutes with negation. A radian
  value is far from the ends of the \<open>int256\<close> range, since it is a quotient by
  \<open>180\<times>10\<^sup>6\<close>.
\<close>

lemma abs_sdiv_pos: "0 < c \<Longrightarrow> \<bar>p sdiv c\<bar> = \<bar>p\<bar> div (c::int)"
  by (cases "p = 0") (simp_all add: signed_divide_int_def abs_mult abs_sgn_eq pos_imp_zdiv_nonneg_iff)

lemma sdiv_minus_left: "(- a) sdiv b = - (a sdiv (b::int))"
  by (simp add: signed_divide_int_def)

lemma int256_cases: "(int256 v = Inr v \<and> \<bar>v\<bar> \<le> 2 ^ 255) \<or> int256 v = Inl (Panic 17)"
  by (auto simp: int256_def)

lemma int256_small: "\<bar>v\<bar> \<le> 2 ^ 254 \<Longrightarrow> int256 v = Inr v"
  unfolding int256_def by (simp; linarith)

lemma toRad_cases: "toRad v = Inl (Panic 17) \<or> (\<exists>r. toRad v = Inr r \<and> \<bar>r\<bar> \<le> 2 ^ 228)"
  using int256_cases [of "v * 3141592"]
proof (elim disjE conjE)
  assume "int256 (v * 3141592) = Inl (Panic 17)"
  then show ?thesis by (simp add: toRad_def)
next
  let ?p = "v * 3141592"
  assume i: "int256 ?p = Inr ?p" and b: "\<bar>?p\<bar> \<le> 2 ^ 255"
  have r: "toRad v = Inr (?p sdiv 180000000)"
    using i by (simp add: toRad_def)
  have "\<bar>?p\<bar> div 180000000 * 180000000 \<le> \<bar>?p\<bar>"
    by linarith
  then have "\<bar>?p\<bar> div 180000000 * 180000000 \<le> 2 ^ 255"
    using b by (rule order_trans)
  then have "\<bar>?p\<bar> div 180000000 \<le> 2 ^ 228" by simp
  then have "\<bar>?p sdiv 180000000\<bar> \<le> 2 ^ 228"
    by (simp only: abs_sdiv_pos [of 180000000, simplified])
  with r show ?thesis by blast
qed

text \<open>
  Negation keeps a product in or out of the \<open>int256\<close> range unless the product is
  \<open>2\<^sup>2\<^sup>5\<^sup>5\<close> or its opposite, which a multiple of \<open>6371000\<close> never is.
\<close>

lemma int256_neg:
  assumes "v \<noteq> 2 ^ 255" "v \<noteq> - (2 ^ 255)"
  shows "int256 (- v) = (case int256 v of Inl e \<Rightarrow> Inl e | Inr u \<Rightarrow> Inr (- u))"
  using assms by (auto simp: int256_def)

lemma not_pow2_255: "d * 6371000 * c \<noteq> (2 ^ 255 :: int)" "d * 6371000 * c \<noteq> - (2 ^ 255 :: int)"
proof -
  have dv: "(5::int) dvd d * 6371000 * c" by simp
  have n: "\<not> (5::int) dvd 2 ^ 255" by simp
  from dv n show "d * 6371000 * c \<noteq> (2 ^ 255 :: int)" by metis
  from dv n show "d * 6371000 * c \<noteq> - (2 ^ 255 :: int)" by (metis dvd_minus_iff)
qed


text \<open>
  The part of \<open>calculateDistance\<close> after \<open>cosLat1\<close>: swapping the two points negates
  \<open>dLat\<close> and \<open>dLon\<close>, which changes neither the squares nor what overflows.
\<close>

lemma distance_tail_neg:
  assumes "\<bar>dLat\<bar> \<le> 2 ^ 229" "\<bar>dLon\<bar> \<le> 2 ^ 229"
  shows "bindE (int256 ((- dLat) * 6371000)) (\<lambda>xn.
     let x = xn sdiv 1000000 in
     bindE (int256 ((- dLon) * 6371000)) (\<lambda>yn.
     bindE (int256 (yn * c)) (\<lambda>yn'.
     let y = yn' sdiv (1000000 * 1000000) in
     bindE (int256 (x * x)) (\<lambda>xx.
     bindE (int256 (y * y)) (\<lambda>yy.
     bindE (int256 (xx + yy)) (\<lambda>s.
     bindE (sqrt_sol s) (\<lambda>r. Inr (nat r))))))))
   = bindE (int256 (dLat * 6371000)) (\<lambda>xn.
     let x = xn sdiv 1000000 in
     bindE (int256 (dLon * 6371000)) (\<lambda>yn.
     bindE (int256 (yn * c)) (\<lambda>yn'.
     let y = yn' sdiv (1000000 * 1000000) in
     bindE (int256 (x * x)) (\<lambda>xx.
     bindE (int256 (y * y)) (\<lambda>yy.
     bindE (int256 (xx + yy)) (\<lambda>s.
     bindE (sqrt_sol s) (\<lambda>r. Inr (nat r))))))))"
proof -
  have "\<bar>dLat * 6371000\<bar> \<le> 2 ^ 254" "\<bar>dLon * 6371000\<bar> \<le> 2 ^ 254"
    using assms by (simp_all add: abs_mult)
  then have x: "int256 (dLat * 6371000) = Inr (dLat * 6371000)"
      "int256 (- (dLat * 6371000)) = Inr (- (dLat * 6371000))"
    and y: "int256 (dLon * 6371000) = Inr (dLon * 6371000)"
      "int256 (- (dLon * 6371000)) = Inr (- (dLon * 6371000))"
    by (simp_all add: int256_small)
  have yn: "int256 (- (dLon * 6371000 * c)) =
      (case int256 (dLon * 6371000 * c) of Inl e \<Rightarrow> Inl e | Inr u \<Rightarrow> Inr (- u))"
    by (rule int256_neg [OF not_pow2_255])
  show ?thesis
    by (cases "int256 (dLon * 6371000 * c)")
      (simp_all add: x y yn Let_def sdiv_minus_left)
qed

text \<open>
  Claim C2, amended. For every two valid coordinate strings whose latitudes give the same
  east-west factor \<open>cosLat1\<close>, the distance from the first to the second equals the
  distance from the second to the first (and when one computation overflows, so does the
  other).
\<close>

theorem calculateDistance_symmetric_same_factor:
  assumes pA: "parseCoordinate A = Inr c1" and pB: "parseCoordinate B = Inr c2"
    and cs: "cosLat1 (latitude c1) = cosLat1 (latitude c2)"
  shows "calculateDistance A B = calculateDistance B A"
proof -
  let ?T = "\<lambda>dLat dLon c. bindE (int256 (dLat * 6371000)) (\<lambda>xn.
     let x = xn sdiv 1000000 in
     bindE (int256 (dLon * 6371000)) (\<lambda>yn.
     bindE (int256 (yn * c)) (\<lambda>yn'.
     let y = yn' sdiv (1000000 * 1000000) in
     bindE (int256 (x * x)) (\<lambda>xx.
     bindE (int256 (y * y)) (\<lambda>yy.
     bindE (int256 (xx + yy)) (\<lambda>s.
     bindE (sqrt_sol s) (\<lambda>r. Inr (nat r))))))))"
  consider (fail) "toRad (latitude c1) = Inl (Panic 17) \<or> toRad (longitude c1) = Inl (Panic 17)
      \<or> toRad (latitude c2) = Inl (Panic 17) \<or> toRad (longitude c2) = Inl (Panic 17)"
    | (ok) ra roa rb rob where
        "toRad (latitude c1) = Inr ra" "\<bar>ra\<bar> \<le> 2 ^ 228"
        "toRad (longitude c1) = Inr roa" "\<bar>roa\<bar> \<le> 2 ^ 228"
        "toRad (latitude c2) = Inr rb" "\<bar>rb\<bar> \<le> 2 ^ 228"
        "toRad (longitude c2) = Inr rob" "\<bar>rob\<bar> \<le> 2 ^ 228"
    using toRad_cases [of "latitude c1"] toRad_cases [of "longitude c1"]
      toRad_cases [of "latitude c2"] toRad_cases [of "longitude c2"]
    by blast
  then show ?thesis
  proof cases
    case fail
    have "calculateDistance A B = Inl (Panic 17)"
      using fail toRad_cases [of "latitude c1"] toRad_cases [of "longitude c1"]
        toRad_cases [of "latitude c2"] toRad_cases [of "longitude c2"]
      by (auto simp: calculateDistance_def pA pB)
    moreover have "calculateDistance B A = Inl (Panic 17)"
      using fail toRad_cases [of "latitude c1"] toRad_cases [of "longitude c1"]
        toRad_cases [of "latitude c2"] toRad_cases [of "longitude c2"]
      by (auto simp: calculateDistance_def pA pB)
    ultimately show ?thesis by simp
  next
    case ok
    have b: "\<bar>rb - ra\<bar> \<le> 2 ^ 229" "\<bar>rob - roa\<bar> \<le> 2 ^ 229"
      using ok by simp_all
    then have "\<bar>rb - ra\<bar> \<le> 2 ^ 254" "\<bar>rob - roa\<bar> \<le> 2 ^ 254"
      "\<bar>ra - rb\<bar> \<le> 2 ^ 254" "\<bar>roa - rob\<bar> \<le> 2 ^ 254"
      by simp_all
    then have d: "int256 (rb - ra) = Inr (rb - ra)" "int256 (rob - roa) = Inr (rob - roa)"
      "int256 (ra - rb) = Inr (ra - rb)" "int256 (roa - rob) = Inr (roa - rob)"
      by (simp_all only: int256_small)
    show ?thesis
    proof (cases "cosLat1 (latitude c1)")
      case (Inl err)
      with cs have "cosLat1 (latitude c2) = Inl err" by simp
      with Inl show ?thesis
        by (simp add: calculateDistance_def pA pB ok d)
    next
      case (Inr c)
      with cs have c2: "cosLat1 (latitude c2) = Inr c" by simp
      have ab: "calculateDistance A B = ?T (rb - ra) (rob - roa) c"
        unfolding calculateDistance_def
        by (simp only: pA pB ok d Inr bindE.simps)
      have ba: "calculateDistance B A = ?T (ra - rb) (roa - rob) c"
        unfolding calculateDistance_def
        by (simp only: pA pB ok d c2 bindE.simps)
      have "?T (- (rb - ra)) (- (rob - roa)) c = ?T (rb - ra) (rob - roa) c"
        by (rule distance_tail_neg [OF b])
      then have "?T (ra - rb) (roa - rob) c = ?T (rb - ra) (rob - roa) c"
        by (simp only: minus_diff_eq)
      with ab ba show ?thesis by simp
    qed
  qed
qed

theorem calculateDistance_symmetric_same_factor_witness:
  "parseCoordinate ''10,1'' = Inr \<lparr>latitude = 10000000, longitude = 1000000\<rparr>
   \<and> parseCoordinate ''20,-1'' = Inr \<lparr>latitude = 20000000, longitude = - 1000000\<rparr>
   \<and> cosLat1 (latitude \<lparr>latitude = 10000000, longitude = 1000000\<rparr>)
       = cosLat1 (latitude \<lparr>latitude = 20000000, longitude = - 1000000\<rparr>)
   \<and> calculateDistance ''10,1'' ''20,-1'' = calculateDistance ''20,-1'' ''10,1''"
proof -
  have h1: "parseCoordinate ''10,1'' = Inr \<lparr>latitude = 10000000, longitude = 1000000\<rparr>"
    by (simp add: parse_defs cong: bindE_weak_cong let_weak_cong)
  have h2: "parseCoordinate ''20,-1'' = Inr \<lparr>latitude = 20000000, longitude = - 1000000\<rparr>"
    by (simp add: parse_defs cong: bindE_weak_cong let_weak_cong)
  have h3: "cosLat1 (latitude \<lparr>latitude = 10000000, longitude = 1000000\<rparr>)
       = cosLat1 (latitude \<lparr>latitude = 20000000, longitude = - 1000000\<rparr>)"
    by (simp add: dist_defs cong: bindE_weak_cong let_weak_cong)
  from calculateDistance_symmetric_same_factor [OF h1 h2 h3] h1 h2 h3
  show ?thesis by blast
qed

end
